theory Spec2Isabelle
  imports Complex_Main
begin

section \<open>Plot export: the table encoder and the vector renderer of \<^verbatim>\<open>Plot/csv.ts\<close>\<close>

text \<open>
  The file \<^verbatim>\<open>packages/studio-base/src/panels/Plot/csv.ts\<close> holds two encoders over
  one data model, \<^verbatim>\<open>generateCSV\<close> and \<^verbatim>\<open>generateSVG\<close>, and two thin wrappers,
  \<^verbatim>\<open>downloadCSV\<close> and \<^verbatim>\<open>downloadSVG\<close>, that hand the text to \<^verbatim>\<open>downloadFiles\<close>.
  Each function below is the translation of the function of the same name.
\<close>

subsection \<open>JavaScript numbers\<close>

text \<open>
  A JavaScript number is an IEEE 754 double. The model keeps the three values that are
  not finite, \<open>Infinity\<close>, \<open>-Infinity\<close> and \<open>NaN\<close>, and takes a finite value as
  the real number it denotes. Arithmetic on finite values is exact: the rounding of a
  double operation, overflow of a finite result to an infinity and the sign of zero are
  not part of the model. The only division of the source is
  \<^verbatim>\<open>(svgWidth - margin * 2) / (xMax - xMin)\<close> (and the same for \<open>y\<close>); its divisor, when it
  is zero, is the difference of two equal finite doubles, which is \<open>+0\<close>, so a
  positive number divided by zero is \<open>Infinity\<close>.
\<close>

datatype number = Fin real | PInf | NInf | NaN

fun js_neg :: "number \<Rightarrow> number" where
  "js_neg (Fin a) = Fin (- a)"
| "js_neg PInf = NInf"
| "js_neg NInf = PInf"
| "js_neg NaN = NaN"

fun js_add :: "number \<Rightarrow> number \<Rightarrow> number" where
  "js_add (Fin a) (Fin b) = Fin (a + b)"
| "js_add NaN _ = NaN"
| "js_add _ NaN = NaN"
| "js_add PInf NInf = NaN"
| "js_add NInf PInf = NaN"
| "js_add PInf _ = PInf"
| "js_add _ PInf = PInf"
| "js_add NInf _ = NInf"
| "js_add _ NInf = NInf"

definition js_sub :: "number \<Rightarrow> number \<Rightarrow> number" where
  "js_sub a b = js_add a (js_neg b)"

fun js_mul :: "number \<Rightarrow> number \<Rightarrow> number" where
  "js_mul (Fin a) (Fin b) = Fin (a * b)"
| "js_mul NaN _ = NaN"
| "js_mul _ NaN = NaN"
| "js_mul (Fin a) PInf = (if a = 0 then NaN else if 0 < a then PInf else NInf)"
| "js_mul (Fin a) NInf = (if a = 0 then NaN else if 0 < a then NInf else PInf)"
| "js_mul PInf (Fin b) = (if b = 0 then NaN else if 0 < b then PInf else NInf)"
| "js_mul NInf (Fin b) = (if b = 0 then NaN else if 0 < b then NInf else PInf)"
| "js_mul PInf PInf = PInf"
| "js_mul PInf NInf = NInf"
| "js_mul NInf PInf = NInf"
| "js_mul NInf NInf = PInf"

fun js_div :: "number \<Rightarrow> number \<Rightarrow> number" where
  "js_div (Fin a) (Fin b) =
     (if b = 0 then (if a = 0 then NaN else if 0 < a then PInf else NInf) else Fin (a / b))"
| "js_div NaN _ = NaN"
| "js_div _ NaN = NaN"
| "js_div (Fin a) PInf = Fin 0"
| "js_div (Fin a) NInf = Fin 0"
| "js_div PInf (Fin b) = (if 0 \<le> b then PInf else NInf)"
| "js_div NInf (Fin b) = (if 0 \<le> b then NInf else PInf)"
| "js_div PInf PInf = NaN"
| "js_div PInf NInf = NaN"
| "js_div NInf PInf = NaN"
| "js_div NInf NInf = NaN"

text \<open>\<^verbatim>\<open>Math.min\<close> and \<^verbatim>\<open>Math.max\<close>: \<open>NaN\<close> if any argument is \<open>NaN\<close>, the
  identity (\<open>Infinity\<close>, \<open>-Infinity\<close>) on no argument.\<close>

fun js_min :: "number \<Rightarrow> number \<Rightarrow> number" where
  "js_min (Fin a) (Fin b) = Fin (min a b)"
| "js_min NaN _ = NaN"
| "js_min _ NaN = NaN"
| "js_min NInf _ = NInf"
| "js_min _ NInf = NInf"
| "js_min PInf b = b"
| "js_min a PInf = a"

fun js_max :: "number \<Rightarrow> number \<Rightarrow> number" where
  "js_max (Fin a) (Fin b) = Fin (max a b)"
| "js_max NaN _ = NaN"
| "js_max _ NaN = NaN"
| "js_max PInf _ = PInf"
| "js_max _ PInf = PInf"
| "js_max NInf b = b"
| "js_max a NInf = a"

fun Math_min :: "number list \<Rightarrow> number" where
  "Math_min [] = PInf"
| "Math_min (v # vs) = js_min v (Math_min vs)"

fun Math_max :: "number list \<Rightarrow> number" where
  "Math_max [] = NInf"
| "Math_max (v # vs) = js_max v (Math_max vs)"

subsection \<open>Numbers as text\<close>

definition digit :: "nat \<Rightarrow> char" where
  "digit d = ''0123456789'' ! d"

fun digits :: "nat \<Rightarrow> string" where
  "digits n = (if n < 10 then [digit n] else digits (n div 10) @ [digit (n mod 10)])"

declare digits.simps [simp del]

text \<open>
  \<^verbatim>\<open>Number::toString\<close>, which a template literal applies to a number: the three
  values that are not finite print as their names, an integer below \<open>10\<^sup>2\<^sup>1\<close> prints as
  its decimal digits. Any other finite value prints as the shortest decimal that reads
  back as the same double; that text depends on the binary representation, so it is the
  parameter \<open>shortest\<close>.
\<close>

definition numberToString :: "(real \<Rightarrow> string) \<Rightarrow> number \<Rightarrow> string" where
  "numberToString shortest v =
     (case v of
        NaN \<Rightarrow> ''NaN''
      | PInf \<Rightarrow> ''Infinity''
      | NInf \<Rightarrow> ''-Infinity''
      | Fin q \<Rightarrow>
          if of_int \<lfloor>q\<rfloor> = q \<and> \<bar>q\<bar> < 10 ^ 21
          then (if q < 0 then ''-'' else '''') @ digits (nat \<bar>\<lfloor>q\<rfloor>\<bar>)
          else shortest q)"

text \<open>
  \<^verbatim>\<open>Number.prototype.toFixed(f)\<close>: the sign, then the integer \<open>n\<close> nearest to
  \<open>\<bar>q\<bar> \<sdot> 10\<^sup>f\<close> (the larger one on a tie) written with \<open>f\<close> digits after the point.
\<close>

definition toFixed :: "(real \<Rightarrow> string) \<Rightarrow> nat \<Rightarrow> number \<Rightarrow> string" where
  "toFixed shortest f v =
     (case v of
        NaN \<Rightarrow> ''NaN''
      | PInf \<Rightarrow> ''Infinity''
      | NInf \<Rightarrow> ''-Infinity''
      | Fin q \<Rightarrow>
          if 10 ^ 21 \<le> \<bar>q\<bar> then numberToString shortest v
          else
            let n = nat \<lfloor>\<bar>q\<bar> * 10 ^ f + 1 / 2\<rfloor>;
                m = digits n;
                z = replicate (f + 1 - length m) (CHR ''0'') @ m;
                k = length z
            in (if q < 0 then ''-'' else '''') @
               (if f = 0 then m else take (k - f) z @ ''.'' @ drop (k - f) z))"

subsection \<open>The data model\<close>

text \<open>
  \<^verbatim>\<open>Datum\<close> and \<^verbatim>\<open>DataSet\<close> are declared in \<^verbatim>\<open>internalTypes\<close>. A \<^verbatim>\<open>Time\<close> is
  opaque here: it is only passed to \<^verbatim>\<open>formatTimeRaw\<close>, so it is the type parameter
  \<open>'t\<close> and \<^verbatim>\<open>formatTimeRaw\<close> is a parameter of the encoder. An absent
  \<^verbatim>\<open>headerStamp\<close> or \<^verbatim>\<open>label\<close> is \<open>None\<close>. The fields \<^verbatim>\<open>x\<close>, \<^verbatim>\<open>y\<close>
  and \<^verbatim>\<open>value\<close> of a datum are \<open>datum_x\<close>, \<open>datum_y\<close> and \<open>datum_value\<close>
  here; a \<^verbatim>\<open>value\<close> is a number or a string.
\<close>

datatype jsval = Num number | Str string | Undefined

record 't Datum =
  datum_x :: number
  datum_y :: number
  datum_value :: jsval
  receiveTime :: 't
  headerStamp :: "'t option"

record 't DataSet =
  label :: "string option"
  data :: "'t Datum list"

text \<open>\<^verbatim>\<open>PlotXAxisVal\<close> is a union of four string literals; at run time it is a string.\<close>

type_synonym PlotXAxisVal = string

subsection \<open>Arrays as text\<close>

fun join :: "string \<Rightarrow> string list \<Rightarrow> string" where
  "join sep [] = []"
| "join sep [s] = s"
| "join sep (s # t # ss) = s @ sep @ join sep (t # ss)"

text \<open>\<^verbatim>\<open>Array.prototype.join\<close> writes an \<^verbatim>\<open>undefined\<close> element as the empty string
  and any other element by \<^verbatim>\<open>ToString\<close>.\<close>

definition toString :: "(real \<Rightarrow> string) \<Rightarrow> jsval \<Rightarrow> string" where
  "toString shortest v =
     (case v of Num n \<Rightarrow> numberToString shortest n | Str s \<Rightarrow> s | Undefined \<Rightarrow> ''undefined'')"

definition joinElement :: "(real \<Rightarrow> string) \<Rightarrow> jsval \<Rightarrow> string" where
  "joinElement shortest v = (if v = Undefined then [] else toString shortest v)"

definition arrayJoin :: "(real \<Rightarrow> string) \<Rightarrow> string \<Rightarrow> jsval list \<Rightarrow> string" where
  "arrayJoin shortest sep vs = join sep (map (joinElement shortest) vs)"

subsection \<open>The table encoder\<close>

definition getCSVRow :: "('t \<Rightarrow> string) \<Rightarrow> string option \<Rightarrow> 't Datum \<Rightarrow> jsval list" where
  "getCSVRow formatTimeRaw lbl d =
     (let receiveTimeFloat = formatTimeRaw (receiveTime d);
          stampTime = (case headerStamp d of Some h \<Rightarrow> formatTimeRaw h | None \<Rightarrow> [])
      in [Num (datum_x d), Str receiveTimeFloat, Str stampTime,
          (case lbl of Some l \<Rightarrow> Str l | None \<Rightarrow> Undefined), datum_value d])"

text \<open>
  The lookup \<^verbatim>\<open>{...}[xAxisVal]\<close> in the object literal. A key that is no own property
  of the literal is looked up on \<^verbatim>\<open>Object.prototype\<close>, which is not part of this
  file: \<open>inherited k\<close> is what is found there under the key \<open>k\<close>, that is
  \<open>Undefined\<close> when there is no such property and otherwise the inherited value, given
  as the text that \<^verbatim>\<open>ToString\<close> makes of it (all that \<^verbatim>\<open>join\<close> uses).
\<close>

definition getCVSColName :: "(string \<Rightarrow> jsval) \<Rightarrow> PlotXAxisVal \<Rightarrow> jsval" where
  "getCVSColName inherited xAxisVal =
     (case map_of
        [(''timestamp'', ''elapsed time''),
         (''index'', ''index''),
         (''custom'', ''x value''),
         (''currentCustom'', ''x value'')] xAxisVal
      of Some s \<Rightarrow> Str s | None \<Rightarrow> inherited xAxisVal)"

definition headLine :: "(string \<Rightarrow> jsval) \<Rightarrow> PlotXAxisVal \<Rightarrow> jsval list" where
  "headLine inherited xAxisVal =
     [getCVSColName inherited xAxisVal, Str ''receive time'', Str ''header.stamp'', Str ''topic'',
      Str ''value'']"

text \<open>The two nested loops push one row per datum onto \<^verbatim>\<open>combinedLines\<close>.\<close>

definition pushRows :: "('t \<Rightarrow> string) \<Rightarrow> jsval list list \<Rightarrow> 't DataSet \<Rightarrow> jsval list list" where
  "pushRows formatTimeRaw lines dataset =
     foldl (\<lambda>acc datum. acc @ [getCSVRow formatTimeRaw (label dataset) datum]) lines (data dataset)"

definition combinedLines ::
  "(string \<Rightarrow> jsval) \<Rightarrow> ('t \<Rightarrow> string) \<Rightarrow> 't DataSet list \<Rightarrow> PlotXAxisVal \<Rightarrow>
   jsval list list" where
  "combinedLines inherited formatTimeRaw datasets xAxisVal =
     foldl (pushRows formatTimeRaw) [headLine inherited xAxisVal] datasets"

text \<open>\<^verbatim>\<open>combinedLines.join("\n")\<close>: each row is an array, written by
  \<^verbatim>\<open>Array.prototype.toString\<close>, that is \<^verbatim>\<open>join(",")\<close>.\<close>

definition generateCSV ::
  "(real \<Rightarrow> string) \<Rightarrow> (string \<Rightarrow> jsval) \<Rightarrow> ('t \<Rightarrow> string) \<Rightarrow> 't DataSet list \<Rightarrow>
   PlotXAxisVal \<Rightarrow> string" where
  "generateCSV shortest inherited formatTimeRaw datasets xAxisVal =
     join ''\<newline>''
       (map (arrayJoin shortest '','')
          (combinedLines inherited formatTimeRaw datasets xAxisVal))"

subsection \<open>The download sink\<close>

text \<open>
  \<^verbatim>\<open>downloadFiles\<close> is imported from \<^verbatim>\<open>util/download\<close>. The model records each
  call: the state is the list of the argument lists the sink has received so far.
\<close>

record Blob =
  blobParts :: "string list"
  blobType :: string

record DownloadFile =
  blob :: Blob
  fileName :: string

type_synonym sink = "DownloadFile list list"

definition downloadFiles :: "DownloadFile list \<Rightarrow> sink \<Rightarrow> sink" where
  "downloadFiles files s = s @ [files]"

definition downloadCSV ::
  "(real \<Rightarrow> string) \<Rightarrow> (string \<Rightarrow> jsval) \<Rightarrow> ('t \<Rightarrow> string) \<Rightarrow> 't DataSet list \<Rightarrow>
   PlotXAxisVal \<Rightarrow> sink \<Rightarrow> sink" where
  "downloadCSV shortest inherited formatTimeRaw datasets xAxisVal s =
     (let csvData = generateCSV shortest inherited formatTimeRaw datasets xAxisVal;
          b = \<lparr>blobParts = [csvData], blobType = ''text/csv;charset=utf-8;''\<rparr>
      in downloadFiles [\<lparr>blob = b, fileName = ''plot_data.csv''\<rparr>] s)"

subsection \<open>The vector renderer\<close>

definition svgWidth :: number where "svgWidth = Fin 500"
definition svgHeight :: number where "svgHeight = Fin 500"
definition margin :: number where "margin = Fin 40"
definition tickSize :: number where "tickSize = Fin 5"
definition maxPoints :: nat where "maxPoints = 1000"

definition svgHeader :: "(real \<Rightarrow> string) \<Rightarrow> string" where
  \<open>svgHeader shortest =
     ''\<newline>    <?xml version="1.0" encoding="UTF-8" standalone="no"?>'' @
     ''\<newline>    <svg'' @
     ''\<newline>      width="'' @ numberToString shortest svgWidth @ ''"'' @
     ''\<newline>      height="'' @ numberToString shortest svgHeight @ ''"'' @
     ''\<newline>      version="1.1"'' @
     ''\<newline>      id="svg6"'' @
     ''\<newline>      xmlns="http://www.w3.org/2000/svg"'' @
     ''\<newline>      xmlns:svg="http://www.w3.org/2000/svg">'' @
     ''\<newline>      <defs id="defs10" />''\<close>

text \<open>
  The data range: the loop over the datasets updates the four bounds, each by
  \<^verbatim>\<open>Math.min\<close> or \<^verbatim>\<open>Math.max\<close> of the bound so far and all coordinates of the
  dataset. (The coordinates are passed as the arguments of one call; the language puts
  no bound on their number, and neither does the model, though an engine may.)
\<close>

record range =
  xMin :: number
  xMax :: number
  yMin :: number
  yMax :: number

definition rangeStep :: "range \<Rightarrow> 't DataSet \<Rightarrow> range" where
  "rangeStep r dataset =
     (let xData = map datum_x (data dataset);
          yData = map datum_y (data dataset)
      in \<lparr>xMin = Math_min (xMin r # xData),
          xMax = Math_max (xMax r # xData),
          yMin = Math_min (yMin r # yData),
          yMax = Math_max (yMax r # yData)\<rparr>)"

definition dataRange :: "'t DataSet list \<Rightarrow> range" where
  "dataRange datasets =
     foldl rangeStep \<lparr>xMin = PInf, xMax = NInf, yMin = PInf, yMax = NInf\<rparr> datasets"

definition xScale :: "range \<Rightarrow> number" where
  "xScale r = js_div (js_sub svgWidth (js_mul margin (Fin 2))) (js_sub (xMax r) (xMin r))"

definition yScale :: "range \<Rightarrow> number" where
  "yScale r = js_div (js_sub svgHeight (js_mul margin (Fin 2))) (js_sub (yMax r) (yMin r))"

definition xAxis :: "(real \<Rightarrow> string) \<Rightarrow> string" where
  \<open>xAxis shortest =
     ''\<newline>    <line'' @
     ''\<newline>      x1="'' @ numberToString shortest margin @ ''"'' @
     ''\<newline>      y1="'' @ numberToString shortest (js_sub svgHeight margin) @ ''"'' @
     ''\<newline>      x2="'' @ numberToString shortest (js_sub svgWidth margin) @ ''"'' @
     ''\<newline>      y2="'' @ numberToString shortest (js_sub svgHeight margin) @ ''"'' @
     ''\<newline>      style="stroke:#000000;stroke-width:1" />'' @
     ''\<newline>    <text'' @
     ''\<newline>      x="'' @ numberToString shortest (js_div svgWidth (Fin 2)) @ ''"'' @
     ''\<newline>      y="'' @ numberToString shortest (js_sub svgHeight (Fin 5)) @ ''"'' @
     ''\<newline>      text-anchor="middle"'' @
     ''\<newline>      dominant-baseline="hanging"'' @
     ''\<newline>      style="fill:#000000;font-size:12px">x</text>''\<close>

definition xTickSize :: number where
  "xTickSize = js_div (js_sub svgWidth (js_mul margin (Fin 2))) (Fin 10)"

definition xPos :: "nat \<Rightarrow> number" where
  "xPos i = js_add margin (js_mul (Fin (real i)) xTickSize)"

definition xTickValue :: "range \<Rightarrow> nat \<Rightarrow> number" where
  "xTickValue r i =
     js_add (xMin r) (js_mul (js_sub (xMax r) (xMin r)) (js_div (Fin (real i)) (Fin 10)))"

definition xTick :: "(real \<Rightarrow> string) \<Rightarrow> range \<Rightarrow> nat \<Rightarrow> string" where
  \<open>xTick shortest r i =
     ''\<newline>      <line'' @
     ''\<newline>        x1="'' @ numberToString shortest (xPos i) @ ''"'' @
     ''\<newline>        y1="'' @ numberToString shortest (js_sub svgHeight margin) @ ''"'' @
     ''\<newline>        x2="'' @ numberToString shortest (xPos i) @ ''"'' @
     ''\<newline>        y2="'' @ numberToString shortest (js_add (js_sub svgHeight margin) tickSize) @ ''"'' @
     ''\<newline>        style="stroke:#000000;stroke-width:1" />'' @
     ''\<newline>      <text'' @
     ''\<newline>        x="'' @ numberToString shortest (xPos i) @ ''"'' @
     ''\<newline>        y="'' @
       numberToString shortest (js_add (js_add (js_sub svgHeight margin) tickSize) (Fin 10)) @ ''"'' @
     ''\<newline>        text-anchor="middle"'' @
     ''\<newline>        dominant-baseline="hanging"'' @
     ''\<newline>        style="fill:#000000;font-size:12px">'' @
     toFixed shortest 1 (xTickValue r i) @
     ''</text>''\<close>

text \<open>\<^verbatim>\<open>for (let i = 0; i <= 10; i++) xTicks.push(...)\<close>\<close>

function xTicksLoop :: "(real \<Rightarrow> string) \<Rightarrow> range \<Rightarrow> nat \<Rightarrow> string list \<Rightarrow> string list" where
  "xTicksLoop shortest r i xTicks =
     (if i \<le> 10 then xTicksLoop shortest r (i + 1) (xTicks @ [xTick shortest r i]) else xTicks)"
  by pat_completeness auto
termination
  by (relation "measure (\<lambda>(shortest, r, i, xTicks). 11 - i)") auto

declare xTicksLoop.simps [simp del]

definition yAxis :: "(real \<Rightarrow> string) \<Rightarrow> string" where
  \<open>yAxis shortest =
     ''\<newline>    <line'' @
     ''\<newline>      x1="'' @ numberToString shortest margin @ ''"'' @
     ''\<newline>      y1="'' @ numberToString shortest margin @ ''"'' @
     ''\<newline>      x2="'' @ numberToString shortest margin @ ''"'' @
     ''\<newline>      y2="'' @ numberToString shortest (js_sub svgHeight margin) @ ''"'' @
     ''\<newline>      style="stroke:#000000;stroke-width:1" />'' @
     ''\<newline>    <text'' @
     ''\<newline>      x="5"'' @
     ''\<newline>      y="'' @ numberToString shortest (js_div svgHeight (Fin 2)) @ ''"'' @
     ''\<newline>      text-anchor="start"'' @
     ''\<newline>      dominant-baseline="middle"'' @
     ''\<newline>      style="fill:#000000;font-size:12px;transform:rotate(-90deg);transform-origin:5px '' @
     numberToString shortest (js_div svgHeight (Fin 2)) @
     ''px;">y</text>''\<close>

definition yTickSize :: number where
  "yTickSize = js_div (js_sub svgHeight (js_mul margin (Fin 2))) (Fin 10)"

definition yPos :: "nat \<Rightarrow> number" where
  "yPos i = js_sub (js_sub svgHeight margin) (js_mul (Fin (real i)) yTickSize)"

definition yTickValue :: "range \<Rightarrow> nat \<Rightarrow> number" where
  "yTickValue r i =
     js_add (yMin r) (js_mul (js_sub (yMax r) (yMin r)) (js_div (Fin (real i)) (Fin 10)))"

definition yTick :: "(real \<Rightarrow> string) \<Rightarrow> range \<Rightarrow> nat \<Rightarrow> string" where
  \<open>yTick shortest r i =
     ''\<newline>      <line'' @
     ''\<newline>        x1="'' @ numberToString shortest (js_sub margin tickSize) @ ''"'' @
     ''\<newline>        y1="'' @ numberToString shortest (yPos i) @ ''"'' @
     ''\<newline>        x2="'' @ numberToString shortest margin @ ''"'' @
     ''\<newline>        y2="'' @ numberToString shortest (yPos i) @ ''"'' @
     ''\<newline>        style="stroke:#000000;stroke-width:1" />'' @
     ''\<newline>      <text'' @
     ''\<newline>        x="'' @ numberToString shortest (js_sub (js_sub margin tickSize) (Fin 5)) @ ''"'' @
     ''\<newline>        y="'' @ numberToString shortest (yPos i) @ ''"'' @
     ''\<newline>        text-anchor="end"'' @
     ''\<newline>        dominant-baseline="middle"'' @
     ''\<newline>        style="fill:#000000;font-size:12px">'' @
     toFixed shortest 2 (yTickValue r i) @
     ''</text>''\<close>

function yTicksLoop :: "(real \<Rightarrow> string) \<Rightarrow> range \<Rightarrow> nat \<Rightarrow> string list \<Rightarrow> string list" where
  "yTicksLoop shortest r i yTicks =
     (if i \<le> 10 then yTicksLoop shortest r (i + 1) (yTicks @ [yTick shortest r i]) else yTicks)"
  by pat_completeness auto
termination
  by (relation "measure (\<lambda>(shortest, r, i, yTicks). 11 - i)") auto

declare yTicksLoop.simps [simp del]

text \<open>
  The stride decimation. \<^verbatim>\<open>dataPoints\<close> and \<^verbatim>\<open>index\<close> are array lengths and
  indices, that is integers below \<open>2\<^sup>3\<^sup>2\<close>, on which the division and \<^verbatim>\<open>Math.ceil\<close>
  are exact. \<^verbatim>\<open>index % 0\<close> is \<open>NaN\<close>, which is not \<^verbatim>\<open>=== 0\<close>: with a factor of
  zero the filter keeps nothing.
\<close>

definition resampleFactor :: "nat \<Rightarrow> nat" where
  "resampleFactor dataPoints = nat \<lceil>real dataPoints / real maxPoints\<rceil>"

definition keepIndex :: "nat \<Rightarrow> nat \<Rightarrow> bool" where
  "keepIndex factor index = (factor \<noteq> 0 \<and> index mod factor = 0)"

definition resampledData :: "'a list \<Rightarrow> 'a list" where
  "resampledData ds =
     (let dataPoints = length ds;
          factor = resampleFactor dataPoints
      in map snd (filter (\<lambda>(index, _). keepIndex factor index) (enumerate 0 ds)))"

definition pointX :: "range \<Rightarrow> number \<Rightarrow> number" where
  "pointX r x = js_add margin (js_mul (js_sub x (xMin r)) (xScale r))"

definition pointY :: "range \<Rightarrow> number \<Rightarrow> number" where
  "pointY r y = js_sub (js_sub svgHeight margin) (js_mul (js_sub y (yMin r)) (yScale r))"

definition pathPoint :: "(real \<Rightarrow> string) \<Rightarrow> range \<Rightarrow> 't Datum \<Rightarrow> string" where
  "pathPoint shortest r d =
     numberToString shortest (pointX r (datum_x d)) @ '','' @
     numberToString shortest (pointY r (datum_y d))"

definition pathData :: "(real \<Rightarrow> string) \<Rightarrow> range \<Rightarrow> 't DataSet \<Rightarrow> string" where
  "pathData shortest r dataset =
     join '' '' (map (pathPoint shortest r) (resampledData (data dataset)))"

definition pathElement :: "(real \<Rightarrow> string) \<Rightarrow> range \<Rightarrow> 't DataSet \<Rightarrow> string" where
  \<open>pathElement shortest r dataset =
     ''\<newline>      <path'' @
     ''\<newline>        style="opacity:0.712203;fill:none;stroke:#000000;stroke-width:2px;stop-color:#000000"'' @
     ''\<newline>        d="M'' @ pathData shortest r dataset @ ''" />''\<close>

definition svgClose :: string where
  \<open>svgClose = ''\<newline>    </svg>''\<close>

definition generateSVG :: "(real \<Rightarrow> string) \<Rightarrow> 't DataSet list \<Rightarrow> string" where
  "generateSVG shortest datasets =
     (let svgData = svgHeader shortest;
          r = dataRange datasets;
          xTicks = xTicksLoop shortest r 0 [];
          svgData = svgData @ xAxis shortest @ concat xTicks;
          yTicks = yTicksLoop shortest r 0 [];
          svgData = svgData @ yAxis shortest @ concat yTicks;
          svgData = foldl (\<lambda>acc dataset. acc @ pathElement shortest r dataset) svgData datasets
      in svgData @ svgClose)"

definition downloadSVG :: "(real \<Rightarrow> string) \<Rightarrow> 't DataSet list \<Rightarrow> sink \<Rightarrow> sink" where
  "downloadSVG shortest datasets s =
     (let svgData = generateSVG shortest datasets;
          b = \<lparr>blobParts = [svgData], blobType = ''image/svg+xml;charset=utf-8;''\<rparr>
      in downloadFiles [\<lparr>blob = b, fileName = ''plot_data.svg''\<rparr>] s)"

subsection \<open>Sample collaborators and inputs\<close>

text \<open>Concrete stand-ins for the two parameters and sample datasets, used where a
  statement is evaluated at a concrete input. The dataset \<open>scenarioA\<close> is the one
  of scenario A of the specification.\<close>

definition fixedShortest :: "real \<Rightarrow> string" where
  "fixedShortest q = ''#''"

definition plainTime :: "nat \<Rightarrow> string" where
  "plainTime t = digits t"

text \<open>The lookup on \<^verbatim>\<open>Object.prototype\<close> at keys that it does not have; it is used
  below at the key \<open>foo\<close> only.\<close>

definition noInherited :: "string \<Rightarrow> jsval" where
  "noInherited k = Undefined"

definition scenarioA :: "nat DataSet" where
  "scenarioA =
     \<lparr>label = Some ''/a'',
      data = [\<lparr>datum_x = Fin 0, datum_y = Fin 0, datum_value = Num (Fin 0), receiveTime = 4,
               headerStamp = None\<rparr>,
              \<lparr>datum_x = Fin 10, datum_y = Fin 10, datum_value = Num (Fin 10), receiveTime = 2,
               headerStamp = Some 3\<rparr>]\<rparr>"

text \<open>A dataset whose points all have \<open>x = 1\<close>, a dataset of a single point, and a
  dataset without points.\<close>

definition constantX :: "nat DataSet" where
  "constantX =
     \<lparr>label = Some ''/c'',
      data = [\<lparr>datum_x = Fin 1, datum_y = Fin 0, datum_value = Num (Fin 0), receiveTime = 4,
               headerStamp = None\<rparr>,
              \<lparr>datum_x = Fin 1, datum_y = Fin 5, datum_value = Num (Fin 5), receiveTime = 2,
               headerStamp = None\<rparr>]\<rparr>"

definition onePoint :: "nat DataSet" where
  "onePoint =
     \<lparr>label = None,
      data = [\<lparr>datum_x = Fin 1, datum_y = Fin 2, datum_value = Num (Fin 2), receiveTime = 4,
               headerStamp = None\<rparr>]\<rparr>"

definition noPoints :: "nat DataSet" where
  "noPoints = \<lparr>label = None, data = []\<rparr>"

text \<open>Scenario B of the specification: one dataset of 2500 evenly spaced points.\<close>

definition scenarioB :: "nat DataSet" where
  "scenarioB =
     \<lparr>label = Some ''/b'',
      data = map (\<lambda>k. \<lparr>datum_x = Fin (real k), datum_y = Fin (real k),
                        datum_value = Num (Fin (real k)), receiveTime = k,
                        headerStamp = None\<rparr>) [0..<2500]\<rparr>"

subsection \<open>Notions used by the statements\<close>

text \<open>All \<open>x\<close> and all \<open>y\<close> coordinates of a dataset list, in input order.\<close>

definition allX :: "'t DataSet list \<Rightarrow> number list" where
  "allX datasets = concat (map (\<lambda>dataset. map datum_x (data dataset)) datasets)"

definition allY :: "'t DataSet list \<Rightarrow> number list" where
  "allY datasets = concat (map (\<lambda>dataset. map datum_y (data dataset)) datasets)"









section \<open>The table encoder: rows, header, scenarios\<close>

lemma foldl_snoc_map: "foldl (\<lambda>acc d. acc @ [f d]) acc xs = acc @ map f xs"
  by (induction xs arbitrary: acc) simp_all

lemma pushRows_eq:
  "pushRows fmt lines dataset = lines @ map (getCSVRow fmt (label dataset)) (data dataset)"
  by (simp add: pushRows_def foldl_snoc_map)

lemma foldl_pushRows:
  "foldl (pushRows fmt) lines datasets =
     lines @ concat (map (\<lambda>dataset. map (getCSVRow fmt (label dataset)) (data dataset)) datasets)"
  by (induction datasets arbitrary: lines) (simp_all add: pushRows_eq)

lemma combinedLines_eq:
  "combinedLines inh fmt datasets ax =
     headLine inh ax # concat (map (\<lambda>dataset. map (getCSVRow fmt (label dataset)) (data dataset)) datasets)"
  by (simp add: combinedLines_def foldl_pushRows)

lemma getCVSColName_cases:
  "getCVSColName inh ''timestamp'' = Str ''elapsed time''"
  "getCVSColName inh ''index'' = Str ''index''"
  "getCVSColName inh ''custom'' = Str ''x value''"
  "getCVSColName inh ''currentCustom'' = Str ''x value''"
  by (simp_all add: getCVSColName_def)

lemma headerText:
  "arrayJoin sh '','' (headLine inh ax) =
     joinElement sh (getCVSColName inh ax) @ '',receive time,header.stamp,topic,value''"
  by (simp add: arrayJoin_def headLine_def joinElement_def toString_def)

lemma join_Cons: "join sep (a # rows) = a @ concat (map (\<lambda>r. sep @ r) rows)"
  by (induction rows arbitrary: a) simp_all

lemma generateCSV_text:
  "generateCSV sh inh fmt datasets ax =
     joinElement sh (getCVSColName inh ax) @ '',receive time,header.stamp,topic,value'' @
     concat (map (\<lambda>row. ''\<newline>'' @ arrayJoin sh '','' row)
       (concat (map (\<lambda>dataset. map (getCSVRow fmt (label dataset)) (data dataset)) datasets)))"
  by (simp add: generateCSV_def combinedLines_eq join_Cons headerText comp_def)

lemma digits_small: "digits 0 = ''0''" "digits 10 = ''10''"
  by (simp_all add: digits.simps digit_def)

lemma numberToString_small:
  "numberToString sh (Fin 0) = ''0''" "numberToString sh (Fin 10) = ''10''"
  by (simp_all add: numberToString_def digits_small)

text \<open>
  Claim C2, as the code has it. The first header cell is the value of the lookup
  \<^verbatim>\<open>{...}[xAxisVal]\<close>, followed by the four fixed cells; the lookup maps the four axis
  kinds as documented. For any other key no error is raised: the lookup gives what
  \<^verbatim>\<open>Object.prototype\<close> has under that key, and for a key that is no property there
  either it gives \<^verbatim>\<open>undefined\<close>, which \<^verbatim>\<open>join\<close> writes as the empty text, so that
  the table is returned with a header line that starts with the delimiter.
\<close>

theorem generateCSV_header:
  "hd (combinedLines inh fmt datasets ax) =
     [getCVSColName inh ax, Str ''receive time'', Str ''header.stamp'', Str ''topic'', Str ''value'']
   \<and> getCVSColName inh ''timestamp'' = Str ''elapsed time''
   \<and> getCVSColName inh ''index'' = Str ''index''
   \<and> getCVSColName inh ''custom'' = Str ''x value''
   \<and> getCVSColName inh ''currentCustom'' = Str ''x value''
   \<and> (ax \<notin> {''timestamp'', ''index'', ''custom'', ''currentCustom''} \<longrightarrow>
        getCVSColName inh ax = inh ax \<and>
        (inh ax = Undefined \<longrightarrow>
           generateCSV sh inh fmt [] ax = '',receive time,header.stamp,topic,value''))
   \<and> generateCSV sh inh fmt datasets ax =
       joinElement sh (getCVSColName inh ax) @ '',receive time,header.stamp,topic,value'' @
       concat (map (\<lambda>row. ''\<newline>'' @ arrayJoin sh '','' row)
         (tl (combinedLines inh fmt datasets ax)))"
proof -
  have fall: "ax \<notin> {''timestamp'', ''index'', ''custom'', ''currentCustom''} \<longrightarrow>
        getCVSColName inh ax = inh ax"
    by (simp add: getCVSColName_def)
  have tbl: "generateCSV sh inh fmt dss ax =
       joinElement sh (getCVSColName inh ax) @ '',receive time,header.stamp,topic,value'' @
       concat (map (\<lambda>row. ''\<newline>'' @ arrayJoin sh '','' row)
         (tl (combinedLines inh fmt dss ax)))" for dss :: "'a DataSet list"
    by (simp add: generateCSV_text combinedLines_eq)
  have none: "ax \<notin> {''timestamp'', ''index'', ''custom'', ''currentCustom''} \<longrightarrow>
        inh ax = Undefined \<longrightarrow>
        generateCSV sh inh fmt [] ax = '',receive time,header.stamp,topic,value''"
    using fall by (simp add: generateCSV_text joinElement_def)
  show ?thesis
    using fall none tbl[of datasets]
    by (simp add: combinedLines_eq headLine_def getCVSColName_cases)
qed

theorem generateCSV_header_witness:
  "''foo'' \<notin> {''timestamp'', ''index'', ''custom'', ''currentCustom''}
   \<and> noInherited ''foo'' = Undefined
   \<and> getCVSColName noInherited ''foo'' = Undefined
   \<and> generateCSV fixedShortest noInherited plainTime [] ''foo'' =
       '',receive time,header.stamp,topic,value''
   \<and> generateCSV fixedShortest noInherited plainTime [] ''index'' =
       ''index,receive time,header.stamp,topic,value''"
proof -
  have k: "''foo'' \<notin> {''timestamp'', ''index'', ''custom'', ''currentCustom''}" by simp
  have u: "noInherited ''foo'' = Undefined" by (simp add: noInherited_def)
  note t = generateCSV_header [of noInherited plainTime "[]" "''foo''" fixedShortest]
  from t k u have f: "getCVSColName noInherited ''foo'' = Undefined \<and>
      generateCSV fixedShortest noInherited plainTime [] ''foo'' =
        '',receive time,header.stamp,topic,value''" by simp
  have i: "generateCSV fixedShortest noInherited plainTime [] ''index'' =
       ''index,receive time,header.stamp,topic,value''"
    using generateCSV_header [of noInherited plainTime "[]" "''index''" fixedShortest]
    by (simp add: combinedLines_def joinElement_def toString_def)
  from k u f i show ?thesis by blast
qed

text \<open>
  Claim C2 as stated fails: called with the key \<open>foo\<close>, which is none of the four axis
  kinds and no property of \<^verbatim>\<open>Object.prototype\<close>, \<^verbatim>\<open>generateCSV\<close> raises nothing and
  returns a table.
\<close>

theorem generateCSV_unknown_axis_returns:
  "generateCSV fixedShortest noInherited plainTime [] ''foo'' =
     '',receive time,header.stamp,topic,value''"
  by (simp add: generateCSV_def combinedLines_def headerText getCVSColName_def joinElement_def
      noInherited_def)

text \<open>
  Claim C3. \<^verbatim>\<open>combinedLines\<close> is the header row followed by one row per datum, the
  datasets in input order and the points of each dataset in input order, each row being
  \<open>[x, formatTimeRaw receiveTime, formatTimeRaw headerStamp or the empty text, label or
  undefined, value]\<close>; the number of rows after the header is the sum of the point
  counts; the table is these rows joined.
\<close>

theorem generateCSV_rows:
  "combinedLines inh fmt datasets ax =
     headLine inh ax #
     concat (map (\<lambda>dataset.
        map (\<lambda>d. [Num (datum_x d),
                  Str (fmt (receiveTime d)),
                  Str (case headerStamp d of Some h \<Rightarrow> fmt h | None \<Rightarrow> []),
                  (case label dataset of Some l \<Rightarrow> Str l | None \<Rightarrow> Undefined),
                  datum_value d]) (data dataset)) datasets)
   \<and> length (combinedLines inh fmt datasets ax) =
       1 + sum_list (map (\<lambda>dataset. length (data dataset)) datasets)
   \<and> generateCSV sh inh fmt datasets ax =
       join ''\<newline>'' (map (arrayJoin sh '','') (combinedLines inh fmt datasets ax))"
proof -
  have row: "getCSVRow fmt lbl =
      (\<lambda>d. [Num (datum_x d), Str (fmt (receiveTime d)),
            Str (case headerStamp d of Some h \<Rightarrow> fmt h | None \<Rightarrow> []),
            (case lbl of Some l \<Rightarrow> Str l | None \<Rightarrow> Undefined),
            datum_value d])" for lbl
    by (rule ext) (simp add: getCSVRow_def)
  have len: "length (concat (map (\<lambda>dataset. map (getCSVRow fmt (label dataset)) (data dataset)) dss)) =
      sum_list (map (\<lambda>dataset. length (data dataset)) dss)" for dss
    by (induction dss) simp_all
  show ?thesis
    unfolding combinedLines_eq generateCSV_def
    using len [of datasets] by (simp add: row)
qed

text \<open>
  Claim C7. On the empty dataset list the table is the header line alone, for each of
  the four axis kinds. On one dataset of two points with \<open>x = 0\<close> and \<open>x = 10\<close> and
  the axis kind \<open>index\<close>, the table has three rows: the header line
  \<open>index,receive time,header.stamp,topic,value\<close> and two data lines whose first fields
  are \<open>0\<close> and \<open>10\<close>.
\<close>

theorem generateCSV_empty_and_scenario_A:
  "generateCSV sh inh fmt [] ''timestamp'' = ''elapsed time,receive time,header.stamp,topic,value''
   \<and> generateCSV sh inh fmt [] ''index'' = ''index,receive time,header.stamp,topic,value''
   \<and> generateCSV sh inh fmt [] ''custom'' = ''x value,receive time,header.stamp,topic,value''
   \<and> generateCSV sh inh fmt [] ''currentCustom'' = ''x value,receive time,header.stamp,topic,value''
   \<and> (datum_x d0 = Fin 0 \<and> datum_x d1 = Fin 10 \<longrightarrow>
        length (combinedLines inh fmt [\<lparr>label = lbl, data = [d0, d1]\<rparr>] ''index'') = 3 \<and>
        generateCSV sh inh fmt [\<lparr>label = lbl, data = [d0, d1]\<rparr>] ''index'' =
          ''index,receive time,header.stamp,topic,value'' @
          ''\<newline>0,'' @ fmt (receiveTime d0) @ '','' @
            (case headerStamp d0 of Some h \<Rightarrow> fmt h | None \<Rightarrow> []) @ '','' @
            (case lbl of Some l \<Rightarrow> l | None \<Rightarrow> []) @ '','' @ joinElement sh (datum_value d0) @
          ''\<newline>10,'' @ fmt (receiveTime d1) @ '','' @
            (case headerStamp d1 of Some h \<Rightarrow> fmt h | None \<Rightarrow> []) @ '','' @
            (case lbl of Some l \<Rightarrow> l | None \<Rightarrow> []) @ '','' @ joinElement sh (datum_value d1))"
proof -
  have e: "generateCSV sh inh fmt [] a =
      joinElement sh (getCVSColName inh a) @ '',receive time,header.stamp,topic,value''" for a
    by (simp add: generateCSV_text)
  have row: "arrayJoin sh '','' (getCSVRow fmt lbl d) =
      numberToString sh (datum_x d) @ '','' @ fmt (receiveTime d) @ '','' @
      (case headerStamp d of Some h \<Rightarrow> fmt h | None \<Rightarrow> []) @ '','' @
      (case lbl of Some l \<Rightarrow> l | None \<Rightarrow> []) @ '','' @ joinElement sh (datum_value d)" for d
    by (simp add: arrayJoin_def getCSVRow_def joinElement_def toString_def split: option.splits)
  show ?thesis
    by (simp add: e getCVSColName_cases joinElement_def toString_def generateCSV_text
        combinedLines_eq row numberToString_small)
qed

theorem generateCSV_empty_and_scenario_A_witness:
  "datum_x \<lparr>datum_x = Fin 0, datum_y = Fin 0, datum_value = Num (Fin 0), receiveTime = (1::nat),
             headerStamp = None\<rparr> = Fin 0
   \<and> generateCSV fixedShortest noInherited plainTime
       [\<lparr>label = Some ''/a'', data =
          [\<lparr>datum_x = Fin 0, datum_y = Fin 0, datum_value = Num (Fin 0), receiveTime = 1,
            headerStamp = None\<rparr>,
           \<lparr>datum_x = Fin 10, datum_y = Fin 10, datum_value = Str ''v'', receiveTime = 2,
            headerStamp = Some 3\<rparr>]\<rparr>] ''index'' =
       ''index,receive time,header.stamp,topic,value\<newline>0,1,,/a,0\<newline>10,2,3,/a,v''"
  using generateCSV_empty_and_scenario_A [of fixedShortest noInherited plainTime
      "\<lparr>datum_x = Fin 0, datum_y = Fin 0, datum_value = Num (Fin 0), receiveTime = (1::nat),
            headerStamp = None\<rparr>"
      "\<lparr>datum_x = Fin 10, datum_y = Fin 10, datum_value = Str ''v'', receiveTime = 2,
            headerStamp = Some 3\<rparr>" "Some ''/a''"]
  by (simp add: plainTime_def digits.simps digit_def joinElement_def toString_def
      numberToString_small)

section \<open>The export triggers\<close>

text \<open>
  Claim C9. \<^verbatim>\<open>downloadCSV\<close> and \<^verbatim>\<open>downloadSVG\<close> each add exactly one call to the
  sink's record; the argument of that call is a list of one file, whose blob holds the
  encoder's text with the type \<open>text/csv;charset=utf-8;\<close> or
  \<open>image/svg+xml;charset=utf-8;\<close> and whose name is \<open>plot_data.csv\<close> or
  \<open>plot_data.svg\<close>. Nothing else is returned.
\<close>

theorem downloads_call_sink_once:
  "downloadCSV sh inh fmt datasets ax s =
     s @ [[\<lparr>blob = \<lparr>blobParts = [generateCSV sh inh fmt datasets ax],
                    blobType = ''text/csv;charset=utf-8;''\<rparr>,
            fileName = ''plot_data.csv''\<rparr>]]
   \<and> downloadSVG sh datasets s =
     s @ [[\<lparr>blob = \<lparr>blobParts = [generateSVG sh datasets],
                    blobType = ''image/svg+xml;charset=utf-8;''\<rparr>,
            fileName = ''plot_data.svg''\<rparr>]]"
  by (simp add: downloadCSV_def downloadSVG_def downloadFiles_def)

section \<open>Arithmetic of the stride\<close>

lemma ceil_div_nat:
  assumes "0 < (r::nat)"
  shows "(N + r - 1) div r = N div r + (if N mod r = 0 then 0 else 1)"
proof -
  define q where "q = N div r"
  define m where "m = N mod r"
  have N: "N = r * q + m" unfolding q_def m_def by simp
  have lt: "m < r" unfolding m_def using assms by simp
  have "(N + r - 1) div r = q + (if m = 0 then 0 else 1)"
  proof (cases "m = 0")
    case True
    have "(N + r - 1) div r = q"
    proof (rule div_nat_eqI)
      show "r * q \<le> N + r - 1" using N True assms by linarith
      have "r * Suc q = r * q + r" by simp
      then show "N + r - 1 < r * Suc q" using N True assms by linarith
    qed
    with True show ?thesis by simp
  next
    case False
    have "(N + r - 1) div r = q + 1"
    proof (rule div_nat_eqI)
      have "r * (q + 1) = r * q + r" by simp
      then show "r * (q + 1) \<le> N + r - 1" using N False assms by linarith
      have "r * Suc (q + 1) = r * q + r + r" by simp
      then show "N + r - 1 < r * Suc (q + 1)" using N lt assms by linarith
    qed
    with False show ?thesis by simp
  qed
  then show ?thesis unfolding q_def m_def .
qed

lemma ceil_div_bounds:
  assumes "0 < (r::nat)"
  shows "N \<le> ((N + r - 1) div r) * r" and "0 < N \<Longrightarrow> ((N + r - 1) div r - 1) * r < N"
    and "0 < N \<Longrightarrow> 0 < (N + r - 1) div r"
proof -
  define q where "q = N div r"
  define m where "m = N mod r"
  have N: "N = r * q + m" unfolding q_def m_def by simp
  have lt: "m < r" unfolding m_def using assms by simp
  have c: "(N + r - 1) div r = q + (if m = 0 then 0 else 1)"
    unfolding q_def m_def by (rule ceil_div_nat[OF assms])
  show "N \<le> ((N + r - 1) div r) * r"
  proof (cases "m = 0")
    case True
    then show ?thesis using N c by simp
  next
    case False
    have "(q + 1) * r = r * q + r" by simp
    then show ?thesis using N c False lt by simp
  qed
  show "((N + r - 1) div r - 1) * r < N" if "0 < N"
  proof (cases "m = 0")
    case True
    with N that have "0 < q" by (cases q) simp_all
    then show ?thesis using N c True assms by simp
  next
    case False
    have "(q + 1 - 1) * r = r * q" by simp
    then show ?thesis using N c False by simp
  qed
  show "0 < (N + r - 1) div r" if "0 < N"
  proof (cases "m = 0")
    case True
    with N that have "0 < q" by (cases q) simp_all
    then show ?thesis using c True by simp
  next
    case False
    then show ?thesis using c by simp
  qed
qed

lemma ceiling_nat_div:
  assumes "0 < (r::nat)"
  shows "\<lceil>real N / real r\<rceil> = int ((N + r - 1) div r)"
proof (cases "N = 0")
  case True
  then show ?thesis using assms by simp
next
  case False
  let ?q = "(N + r - 1) div r"
  have q0: "0 < ?q" using ceil_div_bounds(3)[OF assms] False by simp
  have up: "real N \<le> real ?q * real r"
    using ceil_div_bounds(1)[OF assms, of N] by (metis of_nat_mult of_nat_le_iff)
  have "(?q - 1) * r < N" using ceil_div_bounds(2)[OF assms] False by simp
  then have "real ((?q - 1) * r) < real N" by (simp only: of_nat_less_iff)
  then have lo: "(real ?q - 1) * real r < real N" using q0 by (simp add: of_nat_diff)
  have r0: "0 < real r" using assms by simp
  show ?thesis
  proof (rule ceiling_unique)
    show "real_of_int (int ?q) - 1 < real N / real r"
      using lo r0 by (simp add: pos_less_divide_eq)
    show "real N / real r \<le> real_of_int (int ?q)"
      using up r0 by (simp add: pos_divide_le_eq)
  qed
qed

lemma stride_index_in_range:
  assumes "0 < (r::nat)" and "k < (N + r - 1) div r"
  shows "k * r < N"
proof -
  have N0: "0 < N" using assms by (cases N) simp_all
  have "k \<le> (N + r - 1) div r - 1" using assms by simp
  then have "k * r \<le> ((N + r - 1) div r - 1) * r" by (rule mult_le_mono1)
  also have "\<dots> < N" by (rule ceil_div_bounds(2)[OF assms(1) N0])
  finally show ?thesis .
qed

lemma stride_filter:
  assumes "0 < r"
  shows "map snd (filter (\<lambda>(index, _). keepIndex r index) (enumerate 0 xs)) =
         map (\<lambda>k. xs ! (k * r)) [0..<(length xs + r - 1) div r]"
proof (induction xs rule: rev_induct)
  case Nil
  then show ?case using assms by simp
next
  case (snoc x xs)
  let ?N = "length xs"
  let ?c = "(?N + r - 1) div r"
  have old: "map (\<lambda>k. (xs @ [x]) ! (k * r)) [0..<?c] = map (\<lambda>k. xs ! (k * r)) [0..<?c]"
    using stride_index_in_range[OF assms] by (simp add: nth_append)
  have cnt: "(Suc ?N + r - 1) div r = ?c + (if ?N mod r = 0 then 1 else 0)"
  proof -
    have "(Suc ?N + r - 1) div r = (?N + r) div r" by simp
    also have "\<dots> = ?N div r + 1" using assms by simp
    finally show ?thesis using ceil_div_nat[OF assms, of ?N] by simp
  qed
  show ?case
  proof (cases "?N mod r = 0")
    case True
    then have "?c = ?N div r" using ceil_div_nat[OF assms, of ?N] by simp
    then have "?c * r = ?N" using True by (simp add: mod_0_imp_dvd)
    then have last: "(xs @ [x]) ! (?c * r) = x" by simp
    show ?thesis
      using snoc.IH True assms cnt old last
      by (simp add: enumerate_append_eq keepIndex_def)
  next
    case False
    show ?thesis
      using snoc.IH False assms cnt old
      by (simp add: enumerate_append_eq keepIndex_def)
  qed
qed

lemma resampleFactor_eq: "resampleFactor N = (N + 999) div 1000"
  using ceiling_nat_div[of 1000 N] by (simp add: resampleFactor_def maxPoints_def)

lemma resampleFactor_pos: "0 < N \<Longrightarrow> 0 < resampleFactor N"
  unfolding resampleFactor_eq by simp

section \<open>The structure of the vector document\<close>

lemma xTicksLoop_eq: "xTicksLoop sh r i acc = acc @ map (xTick sh r) [i..<11]"
proof (induction sh r i acc rule: xTicksLoop.induct)
  case (1 sh r i acc)
  show ?case
  proof (cases "i \<le> 10")
    case True
    then have "[i..<11] = i # [i + 1..<11]" by (simp add: upt_conv_Cons)
    with True "1.IH" show ?thesis by (subst xTicksLoop.simps) simp
  next
    case False
    then show ?thesis by (subst xTicksLoop.simps) simp
  qed
qed

lemma yTicksLoop_eq: "yTicksLoop sh r i acc = acc @ map (yTick sh r) [i..<11]"
proof (induction sh r i acc rule: yTicksLoop.induct)
  case (1 sh r i acc)
  show ?case
  proof (cases "i \<le> 10")
    case True
    then have "[i..<11] = i # [i + 1..<11]" by (simp add: upt_conv_Cons)
    with True "1.IH" show ?thesis by (subst yTicksLoop.simps) simp
  next
    case False
    then show ?thesis by (subst yTicksLoop.simps) simp
  qed
qed

lemma foldl_append_paths: "foldl (\<lambda>acc d. acc @ f d) acc xs = acc @ concat (map f xs)"
  by (induction xs arbitrary: acc) simp_all

lemma generateSVG_parts:
  "generateSVG sh datasets =
     svgHeader sh @ xAxis sh @ concat (map (xTick sh (dataRange datasets)) [0..<11]) @
     yAxis sh @ concat (map (yTick sh (dataRange datasets)) [0..<11]) @
     concat (map (pathElement sh (dataRange datasets)) datasets) @ svgClose"
  by (simp add: generateSVG_def Let_def xTicksLoop_eq yTicksLoop_eq foldl_append_paths)

lemma js_min_assoc: "js_min (js_min a b) c = js_min a (js_min b c)"
  by (cases a; cases b; cases c) (simp_all add: min.assoc)

lemma js_max_assoc: "js_max (js_max a b) c = js_max a (js_max b c)"
  by (cases a; cases b; cases c) (simp_all add: max.assoc)

lemma js_min_PInf [simp]: "js_min a PInf = a" "js_min PInf a = a"
  by (cases a; simp)+

lemma js_max_NInf [simp]: "js_max a NInf = a" "js_max NInf a = a"
  by (cases a; simp)+

lemma Math_min_append: "Math_min (xs @ ys) = js_min (Math_min xs) (Math_min ys)"
  by (induction xs) (simp_all add: js_min_assoc)

lemma Math_max_append: "Math_max (xs @ ys) = js_max (Math_max xs) (Math_max ys)"
  by (induction xs) (simp_all add: js_max_assoc)

lemma rangeStep_sel:
  "xMin (rangeStep r d) = js_min (xMin r) (Math_min (map datum_x (data d)))"
  "xMax (rangeStep r d) = js_max (xMax r) (Math_max (map datum_x (data d)))"
  "yMin (rangeStep r d) = js_min (yMin r) (Math_min (map datum_y (data d)))"
  "yMax (rangeStep r d) = js_max (yMax r) (Math_max (map datum_y (data d)))"
  by (simp_all add: rangeStep_def Let_def)

lemma foldl_rangeStep:
  "foldl rangeStep r datasets =
     \<lparr>xMin = js_min (xMin r) (Math_min (allX datasets)),
      xMax = js_max (xMax r) (Math_max (allX datasets)),
      yMin = js_min (yMin r) (Math_min (allY datasets)),
      yMax = js_max (yMax r) (Math_max (allY datasets))\<rparr>"
proof (induction datasets arbitrary: r)
  case Nil
  then show ?case by (simp add: allX_def allY_def)
next
  case (Cons d ds)
  have "foldl rangeStep r (d # ds) = foldl rangeStep (rangeStep r d) ds" by simp
  also note Cons.IH
  finally show ?case
    by (simp add: rangeStep_sel allX_def allY_def Math_min_append Math_max_append
        js_min_assoc js_max_assoc)
qed

lemma dataRange_eq:
  "dataRange datasets =
     \<lparr>xMin = Math_min (allX datasets), xMax = Math_max (allX datasets),
      yMin = Math_min (allY datasets), yMax = Math_max (allY datasets)\<rparr>"
  by (simp add: dataRange_def foldl_rangeStep)





lemma digits_consts:
  "digits 5 = ''5''" "digits 30 = ''30''" "digits 35 = ''35''" "digits 40 = ''40''"
  "digits 250 = ''250''" "digits 460 = ''460''" "digits 465 = ''465''" "digits 475 = ''475''"
  "digits 495 = ''495''" "digits 500 = ''500''"
  by (simp_all add: digits.simps digit_def)






section \<open>Scanning the markup\<close>





section \<open>The vector renderer: downsampling\<close>

text \<open>
  Claim C4. For a dataset with \<open>N > 0\<close> points the factor is \<open>r = \<lceil>N / 1000\<rceil>\<close>,
  which is positive; the kept points are the points at the indices \<open>0, r, 2r, \<dots>\<close> in
  this order, \<open>\<lceil>N / r\<rceil>\<close> of them, the first being the point of index 0; the path
  data is made of exactly these points. For \<open>N = 2500\<close> the factor is 3 and 834
  points are kept.
\<close>

theorem resampledData_stride:
  assumes "data dataset \<noteq> []"
  shows "resampleFactor (length (data dataset)) = nat \<lceil>real (length (data dataset)) / 1000\<rceil>
     \<and> 0 < resampleFactor (length (data dataset))
     \<and> resampledData (data dataset) =
         map (\<lambda>k. data dataset ! (k * resampleFactor (length (data dataset))))
           [0..<nat \<lceil>real (length (data dataset)) /
                      real (resampleFactor (length (data dataset)))\<rceil>]
     \<and> int (length (resampledData (data dataset))) =
         \<lceil>real (length (data dataset)) / real (resampleFactor (length (data dataset)))\<rceil>
     \<and> hd (resampledData (data dataset)) = data dataset ! 0
     \<and> pathData sh r dataset =
         join '' '' (map (\<lambda>k. pathPoint sh r
                 (data dataset ! (k * resampleFactor (length (data dataset)))))
           [0..<nat \<lceil>real (length (data dataset)) /
                      real (resampleFactor (length (data dataset)))\<rceil>])
     \<and> (length (data dataset) = 2500 \<longrightarrow>
          resampleFactor (length (data dataset)) = 3 \<and>
          length (resampledData (data dataset)) = 834)"
proof -
  let ?xs = "data dataset"
  let ?N = "length ?xs"
  let ?r = "resampleFactor ?N"
  have N0: "0 < ?N" using assms by simp
  have r0: "0 < ?r" by (rule resampleFactor_pos[OF N0])
  have c: "\<lceil>real ?N / real ?r\<rceil> = int ((?N + ?r - 1) div ?r)"
    by (rule ceiling_nat_div[OF r0])
  have c0: "0 < (?N + ?r - 1) div ?r" by (rule ceil_div_bounds(3)[OF r0 N0])
  have eq: "resampledData ?xs = map (\<lambda>k. ?xs ! (k * ?r)) [0..<(?N + ?r - 1) div ?r]"
    unfolding resampledData_def Let_def by (rule stride_filter[OF r0])
  have h: "hd (resampledData ?xs) = ?xs ! 0"
    unfolding eq using c0 by (simp add: hd_map upt_conv_Cons)
  have s: "?N = 2500 \<longrightarrow> ?r = 3 \<and> length (resampledData ?xs) = 834"
    unfolding eq by (simp add: resampleFactor_eq)
  have p: "pathData sh r dataset =
      join '' '' (map (\<lambda>k. pathPoint sh r (?xs ! (k * ?r))) [0..<(?N + ?r - 1) div ?r])"
    unfolding pathData_def eq by (simp add: comp_def)
  show ?thesis
    using r0 eq h s c p by (simp add: resampleFactor_def maxPoints_def)
qed

theorem resampledData_stride_witness:
  "data scenarioB \<noteq> []
   \<and> length (data scenarioB) = 2500
   \<and> resampleFactor (length (data scenarioB)) = 3
   \<and> length (resampledData (data scenarioB)) = 834
   \<and> datum_x (hd (resampledData (data scenarioB))) = Fin 0"
proof -
  have n: "length (data scenarioB) = 2500" by (simp add: scenarioB_def)
  then have ne: "data scenarioB \<noteq> []" by auto
  have z: "data scenarioB ! 0 = \<lparr>datum_x = Fin 0, datum_y = Fin 0,
      datum_value = Num (Fin 0), receiveTime = 0, headerStamp = None\<rparr>"
    by (simp add: scenarioB_def)
  note t = resampledData_stride [OF ne, of fixedShortest "dataRange [scenarioB]"]
  from t have h: "hd (resampledData (data scenarioB)) = data scenarioB ! 0" by blast
  from t n have s: "resampleFactor (length (data scenarioB)) = 3 \<and>
      length (resampledData (data scenarioB)) = 834" by blast
  show ?thesis using n ne s by (simp add: h z)
qed

section \<open>The vector renderer: coordinate mapping\<close>





section \<open>The vector renderer: axes and ticks\<close>





section \<open>The vector renderer: a range of width zero\<close>

lemma Math_const:
  "xs \<noteq> [] \<Longrightarrow> \<forall>v\<in>set xs. v = Fin a \<Longrightarrow> Math_min xs = Fin a \<and> Math_max xs = Fin a"
proof (induction xs)
  case Nil
  then show ?case by simp
next
  case (Cons v vs)
  then show ?case by (cases "vs = []") simp_all
qed

lemma allX_const:
  assumes "\<exists>dataset\<in>set datasets. data dataset \<noteq> []"
    and "\<forall>dataset\<in>set datasets. \<forall>p\<in>set (data dataset). datum_x p = Fin a"
  shows "allX datasets \<noteq> []" and "\<forall>v\<in>set (allX datasets). v = Fin a"
  using assms by (auto simp: allX_def)

lemma allY_const:
  assumes "\<exists>dataset\<in>set datasets. data dataset \<noteq> []"
    and "\<forall>dataset\<in>set datasets. \<forall>p\<in>set (data dataset). datum_y p = Fin a"
  shows "allY datasets \<noteq> []" and "\<forall>v\<in>set (allY datasets). v = Fin a"
  using assms by (auto simp: allY_def)

lemma scale_zero_width:
  "xMin r = Fin a \<Longrightarrow> xMax r = Fin a \<Longrightarrow> xScale r = PInf \<and> pointX r (Fin a) = NaN"
  "yMin r = Fin a \<Longrightarrow> yMax r = Fin a \<Longrightarrow> yScale r = PInf \<and> pointY r (Fin a) = NaN"
  by (simp_all add: xScale_def yScale_def pointX_def pointY_def svgWidth_def svgHeight_def
      margin_def js_sub_def)

lemma numberToString_NaN: "numberToString sh NaN = ''NaN''"
  by (simp add: numberToString_def)

lemma dataRange_constantX:
  "dataRange [constantX] = \<lparr>xMin = Fin 1, xMax = Fin 1, yMin = Fin 0, yMax = Fin 5\<rparr>"
  by (simp add: dataRange_def rangeStep_def constantX_def Let_def)

lemma resampledData_constantX: "resampledData (data constantX) = data constantX"
  by (simp add: constantX_def resampledData_def resampleFactor_eq keepIndex_def
      enumerate_eq_zip upt_rec)

lemma pointY_constantX:
  "pointY (dataRange [constantX]) (Fin 0) = Fin 460"
  "pointY (dataRange [constantX]) (Fin 5) = Fin 40"
  by (simp_all add: dataRange_constantX pointY_def yScale_def svgHeight_def margin_def js_sub_def)

lemma numberToString_40_460:
  "numberToString sh (Fin 40) = ''40''" "numberToString sh (Fin 460) = ''460''"
  by (simp_all add: numberToString_def digits_consts)

lemma pathData_constantX:
  "pathData fixedShortest (dataRange [constantX]) constantX = ''NaN,460 NaN,40''"
proof -
  let ?r = "dataRange [constantX]"
  let ?d0 = "\<lparr>datum_x = Fin 1, datum_y = Fin 0, datum_value = Num (Fin 0),
               receiveTime = 4::nat, headerStamp = None\<rparr>"
  let ?d1 = "\<lparr>datum_x = Fin 1, datum_y = Fin 5, datum_value = Num (Fin 5),
               receiveTime = 2::nat, headerStamp = None\<rparr>"
  have d: "data constantX = [?d0, ?d1]" by (simp add: constantX_def)
  have x: "pointX ?r (Fin 1) = NaN"
    by (simp add: dataRange_constantX pointX_def xScale_def svgWidth_def margin_def js_sub_def)
  have pp: "pathPoint fixedShortest ?r ?d0 = ''NaN,460''"
      "pathPoint fixedShortest ?r ?d1 = ''NaN,40''"
    by (simp_all add: pathPoint_def x pointY_constantX numberToString_40_460 numberToString_NaN)
  have "pathData fixedShortest ?r constantX =
      join '' '' (map (pathPoint fixedShortest ?r) (data constantX))"
    by (simp only: pathData_def resampledData_constantX)
  also have "\<dots> = ''NaN,460 NaN,40''" unfolding d by (simp add: pp)
  finally show ?thesis .
qed

text \<open>
  Claim C1, as the code has it. The source has no guard on the range and raises nothing.
  When the dataset list has at least one point and all its points have the same finite
  \<open>x\<close>, then \<open>xMin = xMax\<close>, the scale \<open>xScale\<close> is \<open>Infinity\<close>, the \<open>x\<close>
  coordinate of every point is \<open>0 \<sdot> Infinity = NaN\<close>, and every point is written into
  the path data with the text \<open>NaN\<close> as its first coordinate. The same holds for
  \<open>y\<close> when all points have the same finite \<open>y\<close>.
\<close>

theorem degenerate_range_emits_NaN:
  "((\<exists>dataset\<in>set datasets. data dataset \<noteq> []) \<and>
    (\<forall>dataset\<in>set datasets. \<forall>p\<in>set (data dataset). datum_x p = Fin a) \<longrightarrow>
      xMin (dataRange datasets) = Fin a \<and> xMax (dataRange datasets) = Fin a \<and>
      xScale (dataRange datasets) = PInf \<and>
      (\<forall>dataset\<in>set datasets. \<forall>p\<in>set (data dataset).
         pointX (dataRange datasets) (datum_x p) = NaN \<and>
         pathPoint sh (dataRange datasets) p =
           ''NaN,'' @ numberToString sh (pointY (dataRange datasets) (datum_y p))))
   \<and> ((\<exists>dataset\<in>set datasets. data dataset \<noteq> []) \<and>
    (\<forall>dataset\<in>set datasets. \<forall>p\<in>set (data dataset). datum_y p = Fin a) \<longrightarrow>
      yMin (dataRange datasets) = Fin a \<and> yMax (dataRange datasets) = Fin a \<and>
      yScale (dataRange datasets) = PInf \<and>
      (\<forall>dataset\<in>set datasets. \<forall>p\<in>set (data dataset).
         pointY (dataRange datasets) (datum_y p) = NaN \<and>
         pathPoint sh (dataRange datasets) p =
           numberToString sh (pointX (dataRange datasets) (datum_x p)) @ '',NaN''))"
proof (intro conjI impI)
  let ?r = "dataRange datasets"
  assume h: "(\<exists>dataset\<in>set datasets. data dataset \<noteq> []) \<and>
    (\<forall>dataset\<in>set datasets. \<forall>p\<in>set (data dataset). datum_x p = Fin a)"
  then have "Math_min (allX datasets) = Fin a \<and> Math_max (allX datasets) = Fin a"
    using allX_const[of datasets a] Math_const[of "allX datasets" a] by blast
  then have sel: "xMin ?r = Fin a" "xMax ?r = Fin a" by (simp_all add: dataRange_eq)
  note z = scale_zero_width(1)[OF sel]
  show "xMin ?r = Fin a" "xMax ?r = Fin a" "xScale ?r = PInf" using sel z by simp_all
  show "\<forall>dataset\<in>set datasets. \<forall>p\<in>set (data dataset).
         pointX ?r (datum_x p) = NaN \<and>
         pathPoint sh ?r p = ''NaN,'' @ numberToString sh (pointY ?r (datum_y p))"
    using h z by (simp add: pathPoint_def numberToString_NaN)
next
  let ?r = "dataRange datasets"
  assume h: "(\<exists>dataset\<in>set datasets. data dataset \<noteq> []) \<and>
    (\<forall>dataset\<in>set datasets. \<forall>p\<in>set (data dataset). datum_y p = Fin a)"
  then have "Math_min (allY datasets) = Fin a \<and> Math_max (allY datasets) = Fin a"
    using allY_const[of datasets a] Math_const[of "allY datasets" a] by blast
  then have sel: "yMin ?r = Fin a" "yMax ?r = Fin a" by (simp_all add: dataRange_eq)
  note z = scale_zero_width(2)[OF sel]
  show "yMin ?r = Fin a" "yMax ?r = Fin a" "yScale ?r = PInf" using sel z by simp_all
  show "\<forall>dataset\<in>set datasets. \<forall>p\<in>set (data dataset).
         pointY ?r (datum_y p) = NaN \<and>
         pathPoint sh ?r p = numberToString sh (pointX ?r (datum_x p)) @ '',NaN''"
    using h z by (simp add: pathPoint_def numberToString_NaN)
qed

theorem degenerate_range_emits_NaN_witness:
  "data constantX \<noteq> []
   \<and> xScale (dataRange [constantX]) = PInf
   \<and> pathData fixedShortest (dataRange [constantX]) constantX = ''NaN,460 NaN,40''
   \<and> data onePoint \<noteq> []
   \<and> yScale (dataRange [onePoint]) = PInf
   \<and> pathData fixedShortest (dataRange [onePoint]) onePoint = ''NaN,NaN''"
proof -
  let ?r = "dataRange [constantX]"
  have ne: "\<exists>dataset\<in>set [constantX]. data dataset \<noteq> []" by (simp add: constantX_def)
  have al: "\<forall>dataset\<in>set [constantX]. \<forall>p\<in>set (data dataset). datum_x p = Fin 1"
    by (simp add: constantX_def)
  from degenerate_range_emits_NaN [of "[constantX]" 1 fixedShortest] ne al
  have s: "xScale ?r = PInf"
    and p: "\<forall>dataset\<in>set [constantX]. \<forall>p\<in>set (data dataset).
         pathPoint fixedShortest ?r p =
           ''NaN,'' @ numberToString fixedShortest (pointY ?r (datum_y p))"
    by blast+
  let ?d0 = "\<lparr>datum_x = Fin 1, datum_y = Fin 0, datum_value = Num (Fin 0),
               receiveTime = 4::nat, headerStamp = None\<rparr>"
  let ?d1 = "\<lparr>datum_x = Fin 1, datum_y = Fin 5, datum_value = Num (Fin 5),
               receiveTime = 2::nat, headerStamp = None\<rparr>"
  have d: "data constantX = [?d0, ?d1]" by (simp add: constantX_def)
  from p have "\<forall>p\<in>set (data constantX).
      pathPoint fixedShortest ?r p =
        ''NaN,'' @ numberToString fixedShortest (pointY ?r (datum_y p))" by simp
  then have pp: "pathPoint fixedShortest ?r ?d0 = ''NaN,460''"
      "pathPoint fixedShortest ?r ?d1 = ''NaN,40''"
    unfolding d by (simp_all add: pointY_constantX numberToString_40_460)
  have "pathData fixedShortest ?r constantX =
      join '' '' (map (pathPoint fixedShortest ?r) (data constantX))"
    by (simp only: pathData_def resampledData_constantX)
  also have "\<dots> = ''NaN,460 NaN,40''" unfolding d by (simp add: pp)
  finally have cx: "pathData fixedShortest ?r constantX = ''NaN,460 NaN,40''" .
  let ?o = "dataRange [onePoint]"
  let ?e = "\<lparr>datum_x = Fin 1, datum_y = Fin 2, datum_value = Num (Fin 2),
              receiveTime = 4::nat, headerStamp = None\<rparr>"
  have de: "data onePoint = [?e]" by (simp add: onePoint_def)
  have ne1: "\<exists>dataset\<in>set [onePoint]. data dataset \<noteq> []" by (simp add: onePoint_def)
  have ax: "\<forall>dataset\<in>set [onePoint]. \<forall>p\<in>set (data dataset). datum_x p = Fin 1"
    by (simp add: onePoint_def)
  have ay: "\<forall>dataset\<in>set [onePoint]. \<forall>p\<in>set (data dataset). datum_y p = Fin 2"
    by (simp add: onePoint_def)
  from degenerate_range_emits_NaN [of "[onePoint]" 1 fixedShortest] ne1 ax
  have px: "\<forall>dataset\<in>set [onePoint]. \<forall>p\<in>set (data dataset).
         pointX ?o (datum_x p) = NaN" by blast
  from degenerate_range_emits_NaN [of "[onePoint]" 2 fixedShortest] ne1 ay
  have sy: "yScale ?o = PInf"
    and py: "\<forall>dataset\<in>set [onePoint]. \<forall>p\<in>set (data dataset).
         pathPoint fixedShortest ?o p =
           numberToString fixedShortest (pointX ?o (datum_x p)) @ '',NaN''"
    by blast+
  from px have x1: "pointX ?o (Fin 1) = NaN" by (simp add: de)
  from py have "pathPoint fixedShortest ?o ?e =
      numberToString fixedShortest (pointX ?o (datum_x ?e)) @ '',NaN''" by (simp add: de)
  then have pe: "pathPoint fixedShortest ?o ?e = ''NaN,NaN''"
    by (simp add: x1 numberToString_NaN)
  have rs: "resampledData (data onePoint) = [?e]"
    by (simp add: de resampledData_def resampleFactor_eq keepIndex_def enumerate_eq_zip upt_rec)
  have co: "pathData fixedShortest ?o onePoint = ''NaN,NaN''"
    unfolding pathData_def rs by (simp add: pe)
  from s cx sy co d de show ?thesis by simp
qed

text \<open>
  Claim C1 as stated fails: for the single dataset \<open>constantX\<close>, whose two points
  have \<open>x = 1\<close>, \<^verbatim>\<open>generateSVG\<close> returns a document whose path data is
  \<open>NaN,460 NaN,40\<close>.
\<close>

theorem generateSVG_constant_x_emits_NaN:
  \<open>generateSVG fixedShortest [constantX] =
     svgHeader fixedShortest @ xAxis fixedShortest @
     concat (map (xTick fixedShortest (dataRange [constantX])) [0..<11]) @
     yAxis fixedShortest @
     concat (map (yTick fixedShortest (dataRange [constantX])) [0..<11]) @
     ''\<newline>      <path'' @
     ''\<newline>        style="opacity:0.712203;fill:none;stroke:#000000;stroke-width:2px;stop-color:#000000"'' @
     ''\<newline>        d="MNaN,460 NaN,40" />'' @
     ''\<newline>    </svg>''\<close>
  by (simp add: generateSVG_parts pathElement_def pathData_constantX svgClose_def)

section \<open>The vector renderer: datasets without points\<close>

lemma resampledData_Nil: "resampledData [] = []"
  by (simp add: resampledData_def)

lemma pathElement_empty:
  \<open>data dataset = [] \<Longrightarrow>
   pathElement sh r dataset =
     ''\<newline>      <path'' @
     ''\<newline>        style="opacity:0.712203;fill:none;stroke:#000000;stroke-width:2px;stop-color:#000000"'' @
     ''\<newline>        d="M" />''\<close>
  by (simp add: pathElement_def pathData_def resampledData_Nil)

text \<open>
  Claim C10. For a dataset without points the factor is \<open>\<lceil>0 / 1000\<rceil> = 0\<close>, the
  filter keeps no index, no point is kept, and the path element of the dataset is
  emitted with the path data \<open>M\<close> alone. The document holds one path element per
  dataset of the input list, in input order, whether the dataset has points or not.
\<close>

theorem empty_dataset_path:
  \<open>(data dataset = [] \<longrightarrow>
      resampleFactor (length (data dataset)) = 0 \<and>
      \<not> keepIndex (resampleFactor (length (data dataset))) index \<and>
      resampledData (data dataset) = [] \<and>
      pathElement sh r dataset =
        ''\<newline>      <path'' @
        ''\<newline>        style="opacity:0.712203;fill:none;stroke:#000000;stroke-width:2px;stop-color:#000000"'' @
        ''\<newline>        d="M" />'')
   \<and> generateSVG sh datasets =
       svgHeader sh @ xAxis sh @ concat (map (xTick sh (dataRange datasets)) [0..<11]) @
       yAxis sh @ concat (map (yTick sh (dataRange datasets)) [0..<11]) @
       concat (map (pathElement sh (dataRange datasets)) datasets) @ svgClose
   \<and> length (map (pathElement sh (dataRange datasets)) datasets) = length datasets\<close>
proof -
  have "resampleFactor 0 = 0" by (simp add: resampleFactor_eq)
  then show ?thesis
    using pathElement_empty[of dataset sh r]
    by (simp add: generateSVG_parts resampledData_Nil keepIndex_def)
qed

theorem empty_dataset_path_witness:
  \<open>data noPoints = []
   \<and> pathElement fixedShortest (dataRange [scenarioA, noPoints]) noPoints =
        ''\<newline>      <path'' @
        ''\<newline>        style="opacity:0.712203;fill:none;stroke:#000000;stroke-width:2px;stop-color:#000000"'' @
        ''\<newline>        d="M" />''
   \<and> generateSVG fixedShortest [scenarioA, noPoints] =
       svgHeader fixedShortest @ xAxis fixedShortest @
       concat (map (xTick fixedShortest (dataRange [scenarioA, noPoints])) [0..<11]) @
       yAxis fixedShortest @
       concat (map (yTick fixedShortest (dataRange [scenarioA, noPoints])) [0..<11]) @
       pathElement fixedShortest (dataRange [scenarioA, noPoints]) scenarioA @
       ''\<newline>      <path'' @
       ''\<newline>        style="opacity:0.712203;fill:none;stroke:#000000;stroke-width:2px;stop-color:#000000"'' @
       ''\<newline>        d="M" />'' @
       ''\<newline>    </svg>''\<close>
proof -
  have e: "data noPoints = []" by (simp add: noPoints_def)
  note t = empty_dataset_path [of noPoints 0 fixedShortest "dataRange [scenarioA, noPoints]"
      "[scenarioA, noPoints]"]
  from t e have p: \<open>pathElement fixedShortest (dataRange [scenarioA, noPoints]) noPoints =
        ''\<newline>      <path'' @
        ''\<newline>        style="opacity:0.712203;fill:none;stroke:#000000;stroke-width:2px;stop-color:#000000"'' @
        ''\<newline>        d="M" />''\<close> by blast
  from t have g: "generateSVG fixedShortest [scenarioA, noPoints] =
       svgHeader fixedShortest @ xAxis fixedShortest @
       concat (map (xTick fixedShortest (dataRange [scenarioA, noPoints])) [0..<11]) @
       yAxis fixedShortest @
       concat (map (yTick fixedShortest (dataRange [scenarioA, noPoints])) [0..<11]) @
       concat (map (pathElement fixedShortest (dataRange [scenarioA, noPoints]))
         [scenarioA, noPoints]) @ svgClose" by blast
  show ?thesis
    using e p unfolding g by (simp add: svgClose_def)
qed

section \<open>The vector renderer: inputs without points\<close>



















end
